theory Spec2Isabelle
  imports Main "HOL-Library.Word"
begin

section \<open>ksbuilder: the data model\<close>

text \<open>
  The program collects certificates and private keys from PEM files into a
  \<open>pkcs12File\<close> value and hands it to the PKCS#12 encoder. Go pointers that may be
  \<open>nil\<close> are \<open>option\<close> values, a method with a pointer receiver takes the
  struct and returns it next to its \<open>error\<close> result, and a \<open>panic\<close> is the
  \<open>Inl\<close> side of a sum.
\<close>

type_synonym byte = "8 word"

text \<open>\<open>fs.FileMode\<close> is a \<open>uint32\<close>.\<close>

type_synonym FileMode = "32 word"

text \<open>
  Of \<open>x509.Certificate\<close> the program reads \<open>IsCA\<close>, \<open>Issuer.String()\<close> and
  \<open>Subject.String()\<close>; \<open>Raw\<close> is the DER encoding and tells certificates apart.
\<close>

record Certificate =
  IsCA :: bool
  Issuer_String :: string
  Subject_String :: string
  Raw :: "byte list"

text \<open>\<open>rsa.PrivateKey\<close> is never looked into; the DER encoding stands for it.\<close>

datatype PrivateKey = PrivateKey "byte list"

text \<open>
  The \<open>error\<close> values of the program. The first three are made by \<open>errors.New\<close>
  in the methods of \<open>pkcs12File\<close>: the names are those of the specification, the
  messages are
  \<^item> \<open>DuplicateEndEntity\<close>: "cannot have two end-entity certs in keystore. ...",
  \<^item> \<open>DuplicateKey\<close>: "cannot have two private keys in keystore",
  \<^item> \<open>MissingEndEntityCert\<close>: "failed to generate keystore because privkey was
    set but found no matching end-entity certificate".
  \<open>LibError\<close> is an error returned by a library primitive (\<open>os\<close>, \<open>x509\<close>,
  \<open>pkcs12\<close>), \<open>SkipDir\<close> and \<open>SkipAll\<close> are the sentinels of
  \<open>path/filepath\<close>. The remaining ones are the values \<open>main\<close> panics with:
  \<open>fmt.Errorf\<close> wrapping a path and an error, the string panic for a missing
  output path, and the run-time panic of a method call on a nil interface.
\<close>

datatype error =
    DuplicateEndEntity
  | DuplicateKey
  | MissingEndEntityCert
  | LibError string
  | SkipDir
  | SkipAll
  | FailedToLoad string error
  | FailedToParsePrivateKey string
  | FailedToParseCertificate string error
  | FailedToParseACertificate string error
  | OutfileNil
  | NilDereference

record pkcs12File =
  cacerts :: "Certificate list"
  intermediatecerts :: "Certificate list"
  privkey :: "PrivateKey option"
  entitycert :: "Certificate option"

text \<open>The zero value \<open>pkcs12File{}\<close> that \<open>main\<close> starts from.\<close>

definition pkcs12File_zero :: pkcs12File where
  "pkcs12File_zero =
     \<lparr>cacerts = [], intermediatecerts = [], privkey = None, entitycert = None\<rparr>"

section \<open>The methods of \<open>pkcs12File\<close>\<close>

definition addCertificate :: "pkcs12File \<Rightarrow> Certificate option \<Rightarrow> error option \<times> pkcs12File" where
  "addCertificate p12 cert =
     (case cert of
        Some c \<Rightarrow>
          if IsCA c then
            (if Issuer_String c = Subject_String c
             then (None, p12\<lparr>cacerts := cacerts p12 @ [c]\<rparr>)
             else (None, p12\<lparr>intermediatecerts := intermediatecerts p12 @ [c]\<rparr>))
          else
            (if entitycert p12 \<noteq> None
             then (Some DuplicateEndEntity, p12)
             else (None, p12\<lparr>entitycert := Some c\<rparr>))
      | None \<Rightarrow> (None, p12))"

text \<open>\<open>addKey\<close> has no assignment in its body: every path returns the receiver as it was.\<close>

definition addKey :: "pkcs12File \<Rightarrow> PrivateKey option \<Rightarrow> error option \<times> pkcs12File" where
  "addKey p12 key =
     (if key \<noteq> None then
        (if privkey p12 \<noteq> None then (Some DuplicateKey, p12) else (None, p12))
      else (None, p12))"

text \<open>
  \<open>writeFile\<close> calls three primitives from outside the program: \<open>pkcs12.Encode\<close>,
  \<open>pkcs12.EncodeTrustStore\<close> and \<open>os.WriteFile\<close>. They are parameters of the
  model (what the encoders draw from \<open>rand.Reader\<close> is part of the parameter), and
  every call is logged with its arguments, so that what is handed to the encoder and
  whether a file is written can be read off the log.
\<close>

datatype extcall =
    CallEncode PrivateKey Certificate "Certificate list" string
  | CallEncodeTrustStore "Certificate list" string
  | CallWriteFile string "byte list" FileMode

record encoders =
  Encode :: "PrivateKey \<Rightarrow> Certificate \<Rightarrow> Certificate list \<Rightarrow> string \<Rightarrow> error + byte list"
  EncodeTrustStore :: "Certificate list \<Rightarrow> string \<Rightarrow> error + byte list"
  WriteFile :: "string \<Rightarrow> byte list \<Rightarrow> FileMode \<Rightarrow> error option"

definition writeFile ::
  "'a encoders_scheme \<Rightarrow> pkcs12File \<Rightarrow> string \<Rightarrow> string \<Rightarrow> FileMode \<Rightarrow> error option \<times> extcall list" where
  "writeFile ext p12 path storepass perm =
     (let allcerts = cacerts p12 @ intermediatecerts p12 in
      case privkey p12 of
        Some k \<Rightarrow>
          (case entitycert p12 of
             None \<Rightarrow> (Some MissingEndEntityCert, [])
           | Some ec \<Rightarrow>
               (case Encode ext k ec allcerts storepass of
                  Inl err \<Rightarrow> (Some err, [CallEncode k ec allcerts storepass])
                | Inr payload \<Rightarrow>
                    (WriteFile ext path payload perm,
                     [CallEncode k ec allcerts storepass, CallWriteFile path payload perm])))
      | None \<Rightarrow>
          (case EncodeTrustStore ext allcerts storepass of
             Inl err \<Rightarrow> (Some err, [CallEncodeTrustStore allcerts storepass])
           | Inr payload \<Rightarrow>
               (WriteFile ext path payload perm,
                [CallEncodeTrustStore allcerts storepass, CallWriteFile path payload perm])))"

text \<open>The chain an encoder call receives; \<open>None\<close> for a call that is not an encoder call.\<close>

fun chainOf :: "extcall \<Rightarrow> Certificate list option" where
  "chainOf (CallEncode k ec chain pw) = Some chain"
| "chainOf (CallEncodeTrustStore chain pw) = Some chain"
| "chainOf (CallWriteFile p b m) = None"

fun isEncode :: "extcall \<Rightarrow> bool" where
  "isEncode (CallEncode k ec chain pw) = True"
| "isEncode _ = False"

fun isWriteFile :: "extcall \<Rightarrow> bool" where
  "isWriteFile (CallWriteFile p b m) = True"
| "isWriteFile _ = False"

text \<open>
  A sequence of method calls on one receiver. The receiver is threaded through every
  call whatever the call returns: a caller that ignores an error goes on with the same
  struct.
\<close>

datatype call = AddKey "PrivateKey option" | AddCertificate "Certificate option"

fun apply_call :: "pkcs12File \<Rightarrow> call \<Rightarrow> error option \<times> pkcs12File" where
  "apply_call p12 (AddKey key) = addKey p12 key"
| "apply_call p12 (AddCertificate cert) = addCertificate p12 cert"

fun apply_calls :: "pkcs12File \<Rightarrow> call list \<Rightarrow> pkcs12File" where
  "apply_calls p12 [] = p12"
| "apply_calls p12 (c # cs) = apply_calls (snd (apply_call p12 c)) cs"

section \<open>The file tree and \<open>filepath.Walk\<close>\<close>

text \<open>
  What \<open>os.Lstat\<close> and the directory listing show of a path: a file (anything that
  is not a directory), a directory with its entries in the sorted order in which
  \<open>filepath.Walk\<close> visits them, a directory whose entries cannot be read, or a path
  whose \<open>Lstat\<close> fails.
\<close>

datatype fsnode =
    File
  | Dir "(string \<times> fsnode) list"
  | DirUnreadable error
  | LstatError error

datatype FileInfo = FileInfo (IsDir: bool)

fun nodeIsDir :: "fsnode \<Rightarrow> bool" where
  "nodeIsDir (Dir names) = True"
| "nodeIsDir (DirUnreadable e) = True"
| "nodeIsDir _ = False"

fun isLstatError :: "fsnode \<Rightarrow> bool" where
  "isLstatError (LstatError e) = True"
| "isLstatError _ = False"

type_synonym 's WalkFunc = "string \<Rightarrow> FileInfo option \<Rightarrow> error option \<Rightarrow> 's \<Rightarrow> error option \<times> 's"

text \<open>
  \<open>filepath.Walk\<close> after the Go library: the function is called on the root and on
  every entry below it; a directory is entered unless the function returns an error
  for it, \<open>SkipDir\<close> on a directory (or on an entry whose \<open>Lstat\<close> failed) skips
  that entry only, any other error stops the walk. The closure's captured variables
  are the state \<open>'s\<close>; \<open>join\<close> is \<open>filepath.Join\<close>.
\<close>

fun walk :: "(string \<Rightarrow> string \<Rightarrow> string) \<Rightarrow> 's WalkFunc \<Rightarrow> string \<Rightarrow> fsnode \<Rightarrow> 's \<Rightarrow> error option \<times> 's"
  and walkNames :: "(string \<Rightarrow> string \<Rightarrow> string) \<Rightarrow> 's WalkFunc \<Rightarrow> string \<Rightarrow> (string \<times> fsnode) list \<Rightarrow> 's \<Rightarrow> error option \<times> 's"
where
  "walk join fn path File s = fn path (Some (FileInfo False)) None s"
| "walk join fn path (DirUnreadable e) s = fn path (Some (FileInfo True)) (Some e) s"
| "walk join fn path (LstatError e) s = fn path None (Some e) s"
| "walk join fn path (Dir names) s =
     (case fn path (Some (FileInfo True)) None s of
        (Some err1, s') \<Rightarrow> (Some err1, s')
      | (None, s') \<Rightarrow> walkNames join fn path names s')"
| "walkNames join fn path [] s = (None, s)"
| "walkNames join fn path ((name, node) # rest) s =
     (case walk join fn (join path name) node s of
        (Some err, s') \<Rightarrow>
          if err = SkipDir \<and> (nodeIsDir node \<or> isLstatError node)
          then walkNames join fn path rest s'
          else (Some err, s')
      | (None, s') \<Rightarrow> walkNames join fn path rest s')"

section \<open>The primitives \<open>main\<close> calls\<close>

datatype pemBlock = Block (pem_Type: string) (pem_Bytes: "byte list")

text \<open>
  \<open>x509.ParsePKCS8PrivateKey\<close> returns a key of any algorithm; the program keeps it
  only when it is an \<open>*rsa.PrivateKey\<close>.
\<close>

datatype pkcs8Key = RSAKey PrivateKey | OtherKey "byte list"

text \<open>
  \<open>Tree\<close> is the file tree found at a path, \<open>pemBlocks\<close> the blocks that the
  successive calls of \<open>pem.Decode\<close> return on a file's bytes, \<open>ReadFile\<close> returns
  both results of \<open>os.ReadFile\<close>.
\<close>

record extern = encoders +
  Abs :: "string \<Rightarrow> error + string"
  Join :: "string \<Rightarrow> string \<Rightarrow> string"
  Tree :: "string \<Rightarrow> fsnode"
  ReadFile :: "string \<Rightarrow> byte list \<times> error option"
  pemBlocks :: "byte list \<Rightarrow> pemBlock list"
  ParsePKCS8PrivateKey :: "byte list \<Rightarrow> error + pkcs8Key"
  ParsePKCS1PrivateKey :: "byte list \<Rightarrow> error + PrivateKey"
  ParseCertificates :: "byte list \<Rightarrow> error + Certificate list"

text \<open>
  \<open>filepath.Walk\<close> itself: \<open>Lstat\<close> on the root, then the walk; \<open>SkipDir\<close> and
  \<open>SkipAll\<close> coming back from the root are not errors.
\<close>

definition Walk :: "'a extern_scheme \<Rightarrow> string \<Rightarrow> 's WalkFunc \<Rightarrow> 's \<Rightarrow> error option \<times> 's" where
  "Walk w root fn s =
     (case walk (Join w) fn root (Tree w root) s of
        (err, s') \<Rightarrow> (if err = Some SkipDir \<or> err = Some SkipAll then None else err, s'))"

text \<open>
  \<open>filepath.Ext\<close>: the suffix from the last dot of the last path element, empty when
  that element has no dot. The scan runs from the end of the path.
\<close>

fun Ext_scan :: "string \<Rightarrow> string \<Rightarrow> string" where
  "Ext_scan [] suffix = []"
| "Ext_scan (c # cs) suffix =
     (if c = CHR ''/'' then []
      else if c = CHR ''.'' then c # suffix
      else Ext_scan cs (c # suffix))"

definition Ext :: "string \<Rightarrow> string" where
  "Ext path = Ext_scan (rev path) []"

definition DefaultPassword :: string where
  "DefaultPassword = ''changeit''"

section \<open>\<open>main\<close>\<close>

text \<open>\<open>check\<close> panics with a non-nil error.\<close>

definition check :: "error option \<Rightarrow> error + unit" where
  "check e = (case e of Some err \<Rightarrow> Inl err | None \<Rightarrow> Inr ())"

text \<open>
  The function literal passed to \<open>filepath.Walk\<close>. It captures \<open>dir\<close> and
  \<open>recurse\<close> and appends to \<open>certdirs\<close> and \<open>certfiles\<close>, the two components of
  the state. It returns \<open>nil\<close> for a directory whatever \<open>recurse\<close> is.
\<close>

definition walkFn :: "string \<Rightarrow> bool \<Rightarrow> (string list \<times> string list) WalkFunc" where
  "walkFn dir rec path info err st =
     (case st of (dirs, files) \<Rightarrow>
        (case err of
           Some e \<Rightarrow> (Some e, (dirs, files))
         | None \<Rightarrow>
            (case info of
               None \<Rightarrow> (Some NilDereference, (dirs, files))
             | Some i \<Rightarrow>
                 if IsDir i then
                   (if path \<noteq> dir
                    then (if rec then (None, (dirs @ [path], files)) else (None, (dirs, files)))
                    else (None, (dirs, files)))
                 else
                   (let extension = Ext path in
                    if extension \<noteq> ''.crt'' \<and> extension \<noteq> ''.key'' \<and> extension \<noteq> ''.pem''
                    then (None, (dirs, files))
                    else (None, (dirs, files @ [path]))))))"

text \<open>
  The loop over \<open>certdirs\<close>. \<open>range\<close> evaluates the slice once, so the loop runs
  over the directories given at the start (the first list) while the closure appends
  to the variable (in the state).
\<close>

fun walkDirs :: "'a extern_scheme \<Rightarrow> bool \<Rightarrow> string list \<Rightarrow> string list \<times> string list \<Rightarrow> error + (string list \<times> string list)" where
  "walkDirs w rec [] st = Inr st"
| "walkDirs w rec (d # ds) st =
     (let dir = (case Abs w d of Inr tmppath \<Rightarrow> tmppath | Inl e \<Rightarrow> d) in
      case Walk w dir (walkFn dir rec) st of
        (err, st') \<Rightarrow>
          (case check err of Inl p \<Rightarrow> Inl p | Inr u \<Rightarrow> walkDirs w rec ds st'))"

text \<open>
  The loop over the PEM blocks of one file. \<open>err\<close> is the variable declared by
  \<open>bytes, err := os.ReadFile(path)\<close>: in the "RSA PRIVATE KEY" case the
  \<open>err\<close> of \<open>if privkey, err := x509.ParsePKCS1PrivateKey(...)\<close> is local to the
  \<open>if\<close> statement, and the \<open>check(err)\<close> after it reads the outer variable.
\<close>

fun blockLoop :: "'a extern_scheme \<Rightarrow> string \<Rightarrow> error option \<Rightarrow> pemBlock list \<Rightarrow> pkcs12File \<times> byte list \<Rightarrow> error + (pkcs12File \<times> byte list)" where
  "blockLoop w path err [] st = Inr st"
| "blockLoop w path err (block # rest) (p12, certsBytes) =
     (if pem_Type block = ''PRIVATE KEY'' then
        (case ParsePKCS8PrivateKey w (pem_Bytes block) of
           Inr (RSAKey k) \<Rightarrow>
             (case addKey p12 (Some k) of
                (e, p12') \<Rightarrow>
                  (case check e of
                     Inl p \<Rightarrow> Inl p
                   | Inr u \<Rightarrow> blockLoop w path err rest (p12', certsBytes)))
         | _ \<Rightarrow> Inl (FailedToParsePrivateKey path))
      else if pem_Type block = ''RSA PRIVATE KEY'' then
        (case ParsePKCS1PrivateKey w (pem_Bytes block) of
           Inr k \<Rightarrow>
             (case addKey p12 (Some k) of
                (e, p12') \<Rightarrow>
                  (case check e of
                     Inl p \<Rightarrow> Inl p
                   | Inr u \<Rightarrow>
                       (case check err of
                          Inl p \<Rightarrow> Inl p
                        | Inr u \<Rightarrow> blockLoop w path err rest (p12', certsBytes))))
         | Inl parseErr \<Rightarrow>
             (case check err of
                Inl p \<Rightarrow> Inl p
              | Inr u \<Rightarrow> blockLoop w path err rest (p12, certsBytes)))
      else if pem_Type block = ''CERTIFICATE'' then
        blockLoop w path err rest (p12, certsBytes @ pem_Bytes block)
      else blockLoop w path err rest (p12, certsBytes))"

fun certLoop :: "string \<Rightarrow> Certificate list \<Rightarrow> pkcs12File \<Rightarrow> error + pkcs12File" where
  "certLoop path [] p12 = Inr p12"
| "certLoop path (cert # certs) p12 =
     (case addCertificate p12 (Some cert) of
        (Some err, p12') \<Rightarrow> Inl (FailedToParseACertificate path err)
      | (None, p12') \<Rightarrow> certLoop path certs p12')"

text \<open>The body of the loop over \<open>certfiles\<close>.\<close>

definition processFile :: "'a extern_scheme \<Rightarrow> string \<Rightarrow> pkcs12File \<Rightarrow> error + pkcs12File" where
  "processFile w path p12 =
     (case ReadFile w path of
        (bytes, err) \<Rightarrow>
          (case err of
             Some e \<Rightarrow> Inl (FailedToLoad path e)
           | None \<Rightarrow>
              (case blockLoop w path err (pemBlocks w bytes) (p12, []) of
                 Inl p \<Rightarrow> Inl p
               | Inr (p12', certsBytes) \<Rightarrow>
                   (case ParseCertificates w certsBytes of
                      Inl e \<Rightarrow> Inl (FailedToParseCertificate path e)
                    | Inr certs \<Rightarrow> certLoop path certs p12'))))"

fun processFiles :: "'a extern_scheme \<Rightarrow> string list \<Rightarrow> pkcs12File \<Rightarrow> error + pkcs12File" where
  "processFiles w [] p12 = Inr p12"
| "processFiles w (path # paths) p12 =
     (case processFile w path p12 of
        Inl p \<Rightarrow> Inl p
      | Inr p12' \<Rightarrow> processFiles w paths p12')"

text \<open>The values of the flags after \<open>flag.Parse()\<close>.\<close>

record flags =
  flag_out :: string
  flag_password :: string
  flag_dir :: "string list"
  flag_file :: "string list"
  flag_recursive :: bool

text \<open>
  \<open>main\<close> from the parsed flags on: the panic value if the run panics, and the log
  of the encoder and \<open>os.WriteFile\<close> calls. What is printed is left out.
\<close>

definition main :: "'a extern_scheme \<Rightarrow> flags \<Rightarrow> error option \<times> extcall list" where
  "main w fl =
     (if flag_out fl = [] then (Some OutfileNil, [])
      else
        (let pass = (if flag_password fl = [] then DefaultPassword else flag_password fl) in
         case walkDirs w (flag_recursive fl) (flag_dir fl) (flag_dir fl, flag_file fl) of
           Inl p \<Rightarrow> (Some p, [])
         | Inr (dirs, files) \<Rightarrow>
             (case processFiles w files pkcs12File_zero of
                Inl p \<Rightarrow> (Some p, [])
              | Inr p12 \<Rightarrow> writeFile w p12 (flag_out fl) pass 420)))"

section \<open>Notions used in the statements\<close>

text \<open>
  What the roles of the certificates in a struct are: every member of the two
  sequences is an authority and the end-entity certificate, if there is one, is not.
\<close>

definition chain_inv :: "pkcs12File \<Rightarrow> bool" where
  "chain_inv p12 \<longleftrightarrow>
     list_all IsCA (cacerts p12) \<and> list_all IsCA (intermediatecerts p12) \<and>
     (case entitycert p12 of None \<Rightarrow> True | Some ec \<Rightarrow> \<not> IsCA ec)"

text \<open>
  The self-signed authorities, and the other authorities, among the certificates of a
  call sequence, in the order of the calls.
\<close>

fun rootsOf :: "call list \<Rightarrow> Certificate list" where
  "rootsOf [] = []"
| "rootsOf (AddCertificate (Some c) # cs) =
     (if IsCA c \<and> Issuer_String c = Subject_String c then c # rootsOf cs else rootsOf cs)"
| "rootsOf (_ # cs) = rootsOf cs"

fun intermediatesOf :: "call list \<Rightarrow> Certificate list" where
  "intermediatesOf [] = []"
| "intermediatesOf (AddCertificate (Some c) # cs) =
     (if IsCA c \<and> Issuer_String c \<noteq> Subject_String c
      then c # intermediatesOf cs else intermediatesOf cs)"
| "intermediatesOf (_ # cs) = intermediatesOf cs"

text \<open>
  Two results of a walk agree on what matters for the candidate list: the error and
  \<open>certfiles\<close>.
\<close>

definition same_files ::
  "error option \<times> string list \<times> string list \<Rightarrow> error option \<times> string list \<times> string list \<Rightarrow> bool" where
  "same_files r1 r2 \<longleftrightarrow> fst r1 = fst r2 \<and> snd (snd r1) = snd (snd r2)"

section \<open>Concrete inputs\<close>

text \<open>Keys, certificates and primitives on which the theorems below are evaluated.\<close>

definition key1 :: PrivateKey where
  "key1 = PrivateKey [1]"

definition key2 :: PrivateKey where
  "key2 = PrivateKey [2]"

definition rootA :: Certificate where
  "rootA = \<lparr>IsCA = True, Issuer_String = ''CN=A'', Subject_String = ''CN=A'', Raw = [10]\<rparr>"

definition intermediateB :: Certificate where
  "intermediateB = \<lparr>IsCA = True, Issuer_String = ''CN=A'', Subject_String = ''CN=B'', Raw = [11]\<rparr>"

definition leafD :: Certificate where
  "leafD = \<lparr>IsCA = False, Issuer_String = ''CN=B'', Subject_String = ''CN=D'', Raw = [12]\<rparr>"

definition leafE :: Certificate where
  "leafE = \<lparr>IsCA = False, Issuer_String = ''CN=B'', Subject_String = ''CN=E'', Raw = [13]\<rparr>"

text \<open>
  Encoders that succeed and return the DER bytes of what they were given, and an
  \<open>os.WriteFile\<close> that succeeds.
\<close>

definition echo :: encoders where
  "echo = \<lparr>Encode = (\<lambda>k ec chain pw. Inr (concat (map Raw (ec # chain)))),
            EncodeTrustStore = (\<lambda>chain pw. Inr (concat (map Raw chain))),
            WriteFile = (\<lambda>path payload perm. None)\<rparr>"

definition no_such_file :: error where
  "no_such_file = LibError ''no such file or directory''"

definition asn1_error :: error where
  "asn1_error = LibError ''asn1: structure error''"

text \<open>
  A machine with two directories. \<open>/certs\<close> holds a text file and a subdirectory
  \<open>sub\<close> with one file \<open>deep.crt\<close> (no PEM block in it); \<open>/keys\<close> holds
  \<open>broken.key\<close>, one "RSA PRIVATE KEY" block whose bytes no parser accepts.
\<close>

definition certs_world :: extern where
  "certs_world =
     \<lparr>Encode = (\<lambda>k ec chain pw. Inr (concat (map Raw (ec # chain)))),
      EncodeTrustStore = (\<lambda>chain pw. Inr (concat (map Raw chain))),
      WriteFile = (\<lambda>path payload perm. None),
      Abs = Inr,
      Join = (\<lambda>dir name. dir @ ''/'' @ name),
      Tree = (\<lambda>path.
        if path = ''/certs'' then Dir [(''sub'', Dir [(''deep.crt'', File)]), (''top.txt'', File)]
        else if path = ''/keys'' then Dir [(''broken.key'', File)]
        else LstatError no_such_file),
      ReadFile = (\<lambda>path.
        if path = ''/keys/broken.key'' then ([1, 2, 3], None)
        else if path = ''/certs/sub/deep.crt'' then ([], None)
        else ([], Some no_such_file)),
      pemBlocks = (\<lambda>bytes. if bytes = [1, 2, 3] then [Block ''RSA PRIVATE KEY'' [7]] else []),
      ParsePKCS8PrivateKey = (\<lambda>der. Inl asn1_error),
      ParsePKCS1PrivateKey = (\<lambda>der. Inl asn1_error),
      ParseCertificates = (\<lambda>der. if der = [] then Inr [] else Inl asn1_error)\<rparr>"

section \<open>Properties of the methods\<close>

lemma addKey_receiver: "snd (addKey p12 key) = p12"
  by (simp add: addKey_def)

lemma addCertificate_privkey: "privkey (snd (addCertificate p12 cert)) = privkey p12"
  by (simp add: addCertificate_def split: option.splits)

lemma apply_call_privkey: "privkey (snd (apply_call p12 c)) = privkey p12"
  by (cases c) (simp_all add: addKey_receiver addCertificate_privkey)

lemma apply_calls_privkey: "privkey (apply_calls p12 cs) = privkey p12"
  by (induction cs arbitrary: p12) (simp_all add: apply_call_privkey)

text \<open>
  The guard of \<open>addKey\<close> does reject a key when the slot is occupied; the slot is
  occupied only in a struct that was not built by \<open>addKey\<close>.
\<close>

lemma addKey_occupied:
  "privkey p12 = Some k \<Longrightarrow> addKey p12 (Some k') = (Some DuplicateKey, p12)"
  by (simp add: addKey_def)

text \<open>The roles are kept by every call, so they hold of every struct built from zero.\<close>

lemma addCertificate_inv: "chain_inv p12 \<Longrightarrow> chain_inv (snd (addCertificate p12 cert))"
  by (simp add: chain_inv_def addCertificate_def split: option.splits)

lemma apply_call_inv: "chain_inv p12 \<Longrightarrow> chain_inv (snd (apply_call p12 c))"
  by (cases c) (simp_all add: addKey_receiver addCertificate_inv)

lemma apply_calls_inv: "chain_inv p12 \<Longrightarrow> chain_inv (apply_calls p12 cs)"
  by (induction cs arbitrary: p12) (simp_all add: apply_call_inv)

lemma zero_inv: "chain_inv pkcs12File_zero"
  by (simp add: chain_inv_def pkcs12File_zero_def)

lemma inv_entity_not_in_chain:
  assumes "chain_inv p12" and "entitycert p12 = Some ec"
  shows "ec \<notin> set (cacerts p12 @ intermediatecerts p12)"
proof -
  from assms have "\<not> IsCA ec" by (simp add: chain_inv_def)
  moreover from assms have "\<forall>c \<in> set (cacerts p12 @ intermediatecerts p12). IsCA c"
    by (auto simp add: chain_inv_def list_all_iff)
  ultimately show ?thesis by blast
qed

text \<open>
  Insertion order: both sequences grow at the end, so after a call sequence they hold
  the authorities of each kind in the order in which they were added.
\<close>

lemma apply_calls_order:
  "cacerts (apply_calls p12 cs) = cacerts p12 @ rootsOf cs \<and>
   intermediatecerts (apply_calls p12 cs) = intermediatecerts p12 @ intermediatesOf cs"
proof (induction cs arbitrary: p12)
  case Nil
  show ?case by simp
next
  case (Cons c cs)
  show ?case
  proof (cases c)
    case (AddKey key)
    then show ?thesis using Cons.IH [of p12] by (simp add: addKey_receiver)
  next
    case (AddCertificate cert)
    then show ?thesis
      using Cons.IH [of "snd (addCertificate p12 cert)"]
      by (cases cert) (simp_all add: addCertificate_def)
  qed
qed

section \<open>Properties of the loops of \<open>main\<close>\<close>

text \<open>
  When the block loop runs, the \<open>err\<close> it reads is nil: a failed \<open>os.ReadFile\<close>
  has panicked before.
\<close>

lemma processFile_err_nil:
  "processFile w path p12 =
     (case ReadFile w path of
        (bytes, Some e) \<Rightarrow> Inl (FailedToLoad path e)
      | (bytes, None) \<Rightarrow>
          (case blockLoop w path None (pemBlocks w bytes) (p12, []) of
             Inl p \<Rightarrow> Inl p
           | Inr (p12', certsBytes) \<Rightarrow>
               (case ParseCertificates w certsBytes of
                  Inl e \<Rightarrow> Inl (FailedToParseCertificate path e)
                | Inr certs \<Rightarrow> certLoop path certs p12')))"
  by (simp add: processFile_def split: prod.splits option.splits)

text \<open>
  So an "RSA PRIVATE KEY" block that \<open>x509.ParsePKCS1PrivateKey\<close> rejects is
  passed over, and the loop goes on with the next block, while a "PRIVATE KEY" block
  that \<open>x509.ParsePKCS8PrivateKey\<close> rejects stops the run.
\<close>

lemma blockLoop_malformed_rsa:
  "pem_Type b = ''RSA PRIVATE KEY'' \<Longrightarrow> ParsePKCS1PrivateKey w (pem_Bytes b) = Inl e \<Longrightarrow>
     blockLoop w path None (b # rest) (p12, certsBytes) =
     blockLoop w path None rest (p12, certsBytes)"
  by (simp add: check_def)

lemma blockLoop_malformed_pkcs8:
  "pem_Type b = ''PRIVATE KEY'' \<Longrightarrow> ParsePKCS8PrivateKey w (pem_Bytes b) = Inl e \<Longrightarrow>
     blockLoop w path err (b # rest) (p12, certsBytes) = Inl (FailedToParsePrivateKey path)"
  by simp

text \<open>
  The file loop never fills the private-key slot either, so \<open>main\<close> never calls
  \<open>pkcs12.Encode\<close>, whatever the input files hold.
\<close>

lemma blockLoop_receiver:
  "blockLoop w path err bs (p12, cb) = Inr (p12', cb') \<Longrightarrow> p12' = p12"
proof (induction bs arbitrary: cb)
  case Nil
  then show ?case by simp
next
  case (Cons b bs)
  then show ?case
    by (auto simp add: addKey_def check_def
        split: if_splits sum.splits pkcs8Key.splits option.splits)
qed

lemma certLoop_privkey: "certLoop path certs p12 = Inr p12' \<Longrightarrow> privkey p12' = privkey p12"
proof (induction certs arbitrary: p12)
  case Nil
  then show ?case by simp
next
  case (Cons c certs)
  from Cons.prems obtain q where step: "addCertificate p12 (Some c) = (None, q)"
    and rest: "certLoop path certs q = Inr p12'"
    by (auto split: prod.splits option.splits)
  from step have "privkey q = privkey p12"
    using addCertificate_privkey [of p12 "Some c"] by simp
  with Cons.IH [OF rest] show ?case by simp
qed

lemma processFile_privkey:
  assumes "processFile w path p12 = Inr p12'"
  shows "privkey p12' = privkey p12"
proof -
  from assms obtain bytes q cb certs
    where loop: "blockLoop w path None (pemBlocks w bytes) (p12, []) = Inr (q, cb)"
      and certs: "certLoop path certs q = Inr p12'"
    by (auto simp add: processFile_def split: prod.splits option.splits sum.splits)
  from loop have "q = p12" by (rule blockLoop_receiver)
  with certLoop_privkey [OF certs] show ?thesis by simp
qed

lemma processFiles_privkey:
  "processFiles w paths p12 = Inr p12' \<Longrightarrow> privkey p12' = privkey p12"
proof (induction paths arbitrary: p12)
  case Nil
  then show ?case by simp
next
  case (Cons path paths)
  from Cons.prems obtain q where one: "processFile w path p12 = Inr q"
    and rest: "processFiles w paths q = Inr p12'"
    by (auto split: sum.splits)
  from Cons.IH [OF rest] processFile_privkey [OF one] show ?case by simp
qed

lemma writeFile_no_key:
  "privkey p12 = None \<Longrightarrow> filter isEncode (snd (writeFile ext p12 path storepass perm)) = []"
  by (simp add: writeFile_def Let_def split: sum.splits)

lemma main_never_Encode: "filter isEncode (snd (main w fl)) = []"
proof (cases "flag_out fl = []")
  case True
  then show ?thesis by (simp add: main_def)
next
  case False
  show ?thesis
  proof (cases "walkDirs w (flag_recursive fl) (flag_dir fl) (flag_dir fl, flag_file fl)")
    case (Inl p)
    with False show ?thesis by (simp add: main_def)
  next
    case (Inr st)
    obtain dirs files where st: "st = (dirs, files)" by (cases st)
    show ?thesis
    proof (cases "processFiles w files pkcs12File_zero")
      case (Inl p)
      with False Inr st show ?thesis by (simp add: main_def)
    next
      case inner: (Inr p12)
      then have "privkey p12 = None"
        using processFiles_privkey [of w files pkcs12File_zero p12]
        by (simp add: pkcs12File_zero_def)
      with False Inr st inner show ?thesis
        by (simp add: main_def writeFile_no_key)
    qed
  qed
qed

text \<open>
  The recursive flag has no effect on the candidate list: the walk function returns
  \<open>nil\<close> for a subdirectory in both cases, and \<open>filepath.Walk\<close> enters it.
\<close>

lemma walkFn_same_files:
  "same_files (walkFn dir True path info err (dirs1, files)) (walkFn dir False path info err (dirs2, files))"
  by (simp add: same_files_def walkFn_def Let_def split: option.splits)

lemma walk_same_files_aux:
  "(\<forall>dirs1 dirs2 files. fn = walkFn dir True \<longrightarrow> s = (dirs1, files) \<longrightarrow>
      same_files (walk join fn path node s)
                 (walk join (walkFn dir False) path node (dirs2, files)))"
  "(\<forall>dirs1 dirs2 files. fn = walkFn dir True \<longrightarrow> s = (dirs1, files) \<longrightarrow>
      same_files (walkNames join fn path names s)
                 (walkNames join (walkFn dir False) path names (dirs2, files)))"
proof (induction join fn path node s and join fn path names s rule: walk_walkNames.induct)
  case (1 join fn path s)
  show ?case using walkFn_same_files by auto
next
  case (2 join fn path e s)
  show ?case using walkFn_same_files by auto
next
  case (3 join fn path e s)
  show ?case using walkFn_same_files by auto
next
  case (4 join fn path names s)
  show ?case
  proof (intro allI impI)
    fix dirs1 dirs2 files
    assume fn: "fn = walkFn dir True" and s: "s = (dirs1, files)"
    obtain e1 d1 f1 where r1: "walkFn dir True path (Some (FileInfo True)) None (dirs1, files) = (e1, d1, f1)"
      by (metis prod_cases3)
    obtain e2 d2 f2 where r2: "walkFn dir False path (Some (FileInfo True)) None (dirs2, files) = (e2, d2, f2)"
      by (metis prod_cases3)
    from walkFn_same_files [of dir path "Some (FileInfo True)" None dirs1 files dirs2] r1 r2
    have eq: "e2 = e1" "f2 = f1" by (simp_all add: same_files_def)
    show "same_files (walk join fn path (Dir names) s)
                 (walk join (walkFn dir False) path (Dir names) (dirs2, files))"
    proof (cases e1)
      case None
      with "4.IH" [of None "(d1, f1)"] fn s r1 [symmetric]
      have "same_files (walkNames join fn path names (d1, f1))
                 (walkNames join (walkFn dir False) path names (d2, f1))"
        by simp
      with None fn s r1 r2 eq show ?thesis by simp
    next
      case (Some err)
      with fn s r1 r2 eq show ?thesis by (simp add: same_files_def)
    qed
  qed
next
  case (5 join fn path s)
  show ?case by (simp add: same_files_def)
next
  case (6 join fn path name node rest s)
  show ?case
  proof (intro allI impI)
    fix dirs1 dirs2 files
    assume fn: "fn = walkFn dir True" and s: "s = (dirs1, files)"
    obtain e1 d1 f1 where r1: "walk join fn (join path name) node s = (e1, d1, f1)"
      by (metis prod_cases3)
    obtain e2 d2 f2 where r2: "walk join (walkFn dir False) (join path name) node (dirs2, files) = (e2, d2, f2)"
      by (metis prod_cases3)
    from "6.IH"(1) fn s
    have "same_files (walk join fn (join path name) node s)
            (walk join (walkFn dir False) (join path name) node (dirs2, files))"
      by blast
    with r1 r2 have eq: "e2 = e1" "f2 = f1"
      by (simp_all add: same_files_def)
    show "same_files (walkNames join fn path ((name, node) # rest) s)
                 (walkNames join (walkFn dir False) path ((name, node) # rest) (dirs2, files))"
    proof (cases e1)
      case None
      with "6.IH"(2) [of None "(d1, f1)"] fn r1 [symmetric]
      have "same_files (walkNames join fn path rest (d1, f1))
                 (walkNames join (walkFn dir False) path rest (d2, f1))"
        by simp
      with None r1 r2 eq show ?thesis by simp
    next
      case (Some err)
      show ?thesis
      proof (cases "err = SkipDir \<and> (nodeIsDir node \<or> isLstatError node)")
        case True
        with "6.IH"(3) [of "Some err" "(d1, f1)" err] Some fn r1 [symmetric]
        have "same_files (walkNames join fn path rest (d1, f1))
                 (walkNames join (walkFn dir False) path rest (d2, f1))"
          by simp
        with True Some r1 r2 eq show ?thesis by simp
      next
        case False
        with Some r1 r2 eq show ?thesis by (auto simp add: same_files_def)
      qed
    qed
  qed
qed

lemma Walk_same_files:
  "same_files (Walk w root (walkFn dir True) (dirs1, files))
              (Walk w root (walkFn dir False) (dirs2, files))"
proof -
  have "same_files (walk (Join w) (walkFn dir True) root (Tree w root) (dirs1, files))
                   (walk (Join w) (walkFn dir False) root (Tree w root) (dirs2, files))"
    using walk_same_files_aux(1) by blast
  then show ?thesis
    by (cases "walk (Join w) (walkFn dir True) root (Tree w root) (dirs1, files)";
        cases "walk (Join w) (walkFn dir False) root (Tree w root) (dirs2, files)")
      (simp add: Walk_def same_files_def)
qed

lemma walkDirs_recurse_irrelevant:
  "map_sum id snd (walkDirs w True ds (dirs1, files)) =
   map_sum id snd (walkDirs w False ds (dirs2, files))"
proof (induction ds arbitrary: dirs1 dirs2 files)
  case Nil
  show ?case by simp
next
  case (Cons d ds)
  define dir where "dir = (case Abs w d of Inr tmppath \<Rightarrow> tmppath | Inl e \<Rightarrow> d)"
  obtain e1 d1 f1 where r1: "Walk w dir (walkFn dir True) (dirs1, files) = (e1, d1, f1)"
    by (metis prod_cases3)
  obtain e2 d2 f2 where r2: "Walk w dir (walkFn dir False) (dirs2, files) = (e2, d2, f2)"
    by (metis prod_cases3)
  from Walk_same_files [of w dir dir dirs1 files dirs2] r1 r2
  have eq: "e2 = e1" "f2 = f1" by (simp_all add: same_files_def)
  show ?case
  proof (cases e1)
    case None
    with r1 r2 eq Cons.IH [of d1 f1 d2] show ?thesis
      by (simp add: dir_def [symmetric] check_def)
  next
    case (Some err)
    with r1 r2 eq show ?thesis
      by (simp add: dir_def [symmetric] check_def)
  qed
qed

section \<open>The claims\<close>

text \<open>
  C1. Claimed: on a struct whose private-key slot is empty, classifying a non-nil
  private key leaves the slot holding that key. The code: \<open>addKey\<close> on the zero
  struct with \<open>key1\<close> returns \<open>nil\<close> and the struct is the zero struct still, its
  \<open>privkey\<close> nil.
\<close>

theorem addKey_key_not_stored:
  "addKey pkcs12File_zero (Some key1) = (None, pkcs12File_zero) \<and>
   privkey (snd (addKey pkcs12File_zero (Some key1))) = None"
  by (simp add: addKey_def pkcs12File_zero_def)

text \<open>
  C2. From the zero struct, after any sequence of \<open>addKey\<close> and \<open>addCertificate\<close>
  calls (whatever they return) \<open>privkey\<close> is nil; so the first primitive
  \<open>writeFile\<close> calls on such a struct is \<open>EncodeTrustStore\<close>, with the
  concatenated chain, and \<open>Encode\<close> is not called at all.
\<close>

theorem privkey_always_nil:
  "privkey (apply_calls pkcs12File_zero cs) = None \<and>
   take 1 (snd (writeFile ext (apply_calls pkcs12File_zero cs) path storepass perm)) =
     [CallEncodeTrustStore
        (cacerts (apply_calls pkcs12File_zero cs) @ intermediatecerts (apply_calls pkcs12File_zero cs))
        storepass] \<and>
   filter isEncode (snd (writeFile ext (apply_calls pkcs12File_zero cs) path storepass perm)) = []"
proof -
  have nil: "privkey (apply_calls pkcs12File_zero cs) = None"
    by (simp add: apply_calls_privkey pkcs12File_zero_def)
  then show ?thesis
    by (simp add: writeFile_def Let_def split: sum.splits)
qed

theorem privkey_always_nil_witness:
  "privkey (apply_calls pkcs12File_zero
             [AddKey (Some key1), AddCertificate (Some leafD), AddKey (Some key2)]) = None \<and>
   snd (writeFile echo
          (apply_calls pkcs12File_zero
             [AddKey (Some key1), AddCertificate (Some leafD), AddKey (Some key2)])
          ''out.p12'' ''changeit'' 420)
     = [CallEncodeTrustStore [] ''changeit'', CallWriteFile ''out.p12'' [] 420]"
  using privkey_always_nil [of "[AddKey (Some key1), AddCertificate (Some leafD), AddKey (Some key2)]"
      echo "''out.p12''" "''changeit''" 420]
  by (simp add: writeFile_def echo_def addKey_def addCertificate_def pkcs12File_zero_def leafD_def)

text \<open>
  C3. Claimed: once one private key has been classified, classifying a second one
  fails with \<open>DuplicateKey\<close>. The code: \<open>addKey\<close> with \<open>key1\<close> and then with
  \<open>key2\<close>, from the zero struct, returns \<open>nil\<close> both times.
\<close>

theorem second_key_accepted:
  "fst (addKey pkcs12File_zero (Some key1)) = None \<and>
   addKey (snd (addKey pkcs12File_zero (Some key1))) (Some key2) = (None, pkcs12File_zero)"
  by (simp add: addKey_def pkcs12File_zero_def)

text \<open>
  C4. For a non-nil certificate \<open>c\<close>: an authority whose issuer string equals its
  subject string is appended to \<open>cacerts\<close>; an authority whose issuer string differs
  is appended to \<open>intermediatecerts\<close>; a certificate that is not an authority, when
  \<open>entitycert\<close> is nil, becomes \<open>entitycert\<close>. Each time the call returns
  \<open>nil\<close> and the struct differs from the receiver in that one field only.
\<close>

theorem addCertificate_classifies:
  "(IsCA c \<and> Issuer_String c = Subject_String c \<longrightarrow>
      addCertificate p12 (Some c) = (None, p12\<lparr>cacerts := cacerts p12 @ [c]\<rparr>)) \<and>
   (IsCA c \<and> Issuer_String c \<noteq> Subject_String c \<longrightarrow>
      addCertificate p12 (Some c) = (None, p12\<lparr>intermediatecerts := intermediatecerts p12 @ [c]\<rparr>)) \<and>
   (\<not> IsCA c \<and> entitycert p12 = None \<longrightarrow>
      addCertificate p12 (Some c) = (None, p12\<lparr>entitycert := Some c\<rparr>))"
  by (simp add: addCertificate_def)

theorem addCertificate_classifies_witness:
  "addCertificate pkcs12File_zero (Some rootA) =
     (None, \<lparr>cacerts = [rootA], intermediatecerts = [], privkey = None, entitycert = None\<rparr>) \<and>
   addCertificate pkcs12File_zero (Some intermediateB) =
     (None, \<lparr>cacerts = [], intermediatecerts = [intermediateB], privkey = None, entitycert = None\<rparr>) \<and>
   addCertificate pkcs12File_zero (Some leafD) =
     (None, \<lparr>cacerts = [], intermediatecerts = [], privkey = None, entitycert = Some leafD\<rparr>)"
  using addCertificate_classifies [of rootA pkcs12File_zero]
    addCertificate_classifies [of intermediateB pkcs12File_zero]
    addCertificate_classifies [of leafD pkcs12File_zero]
  by (simp add: rootA_def intermediateB_def leafD_def pkcs12File_zero_def)

text \<open>
  C5. When \<open>entitycert\<close> is occupied, \<open>addCertificate\<close> with a second certificate
  that is not an authority returns the \<open>DuplicateEndEntity\<close> error and the struct is
  the receiver, unchanged in every field.
\<close>

theorem addCertificate_duplicate:
  "entitycert p12 = Some e \<Longrightarrow> \<not> IsCA c \<Longrightarrow>
     addCertificate p12 (Some c) = (Some DuplicateEndEntity, p12)"
  by (simp add: addCertificate_def)

theorem addCertificate_duplicate_witness:
  "addCertificate
     \<lparr>cacerts = [rootA], intermediatecerts = [], privkey = None, entitycert = Some leafD\<rparr>
     (Some leafE) =
     (Some DuplicateEndEntity,
      \<lparr>cacerts = [rootA], intermediatecerts = [], privkey = None, entitycert = Some leafD\<rparr>)"
  using addCertificate_duplicate
    [of "\<lparr>cacerts = [rootA], intermediatecerts = [], privkey = None, entitycert = Some leafD\<rparr>"
        leafD leafE]
  by (simp add: leafE_def)

text \<open>
  C6. On a struct with \<open>privkey\<close> occupied and \<open>entitycert\<close> nil, \<open>writeFile\<close>
  returns the \<open>MissingEndEntityCert\<close> error and calls no primitive: no encoder and
  no \<open>os.WriteFile\<close>, so no file is written.
\<close>

theorem writeFile_missing_entity:
  "privkey p12 = Some k \<Longrightarrow> entitycert p12 = None \<Longrightarrow>
     writeFile ext p12 path storepass perm = (Some MissingEndEntityCert, [])"
  by (simp add: writeFile_def)

theorem writeFile_missing_entity_witness:
  "writeFile echo
     \<lparr>cacerts = [rootA], intermediatecerts = [], privkey = Some key1, entitycert = None\<rparr>
     ''out.p12'' ''changeit'' 420 = (Some MissingEndEntityCert, [])"
  using writeFile_missing_entity
    [of "\<lparr>cacerts = [rootA], intermediatecerts = [], privkey = Some key1, entitycert = None\<rparr>"
        key1 echo "''out.p12''" "''changeit''" 420]
  by simp

text \<open>
  C7. Claimed: a file with a malformed "RSA PRIVATE KEY" block stops the run with a
  parse error. The code: \<open>/keys/broken.key\<close> holds one such block, which
  \<open>x509.ParsePKCS1PrivateKey\<close> rejects; the file is processed without a panic, and
  \<open>main\<close> on the directory \<open>/keys\<close> runs to its end and writes a trust store.
\<close>

theorem malformed_rsa_key_skipped:
  "ParsePKCS1PrivateKey certs_world [7] = Inl asn1_error \<and>
   processFile certs_world ''/keys/broken.key'' pkcs12File_zero = Inr pkcs12File_zero \<and>
   main certs_world
     \<lparr>flag_out = ''out.p12'', flag_password = [], flag_dir = [''/keys''], flag_file = [],
      flag_recursive = False\<rparr>
   = (None, [CallEncodeTrustStore [] ''changeit'', CallWriteFile ''out.p12'' [] 420])"
  by (simp add: main_def processFile_def certs_world_def Walk_def walkFn_def Ext_def check_def
      DefaultPassword_def writeFile_def pkcs12File_zero_def)

text \<open>
  C8. Claimed: without the recursive flag, a file in a subdirectory of a given
  directory is not a candidate. The code: walking \<open>/certs\<close> with \<open>recurse\<close>
  false puts \<open>/certs/sub/deep.crt\<close> on \<open>certfiles\<close>.
\<close>

theorem subdirectory_file_collected:
  "walkDirs certs_world False [''/certs''] ([''/certs''], []) =
     Inr ([''/certs''], [''/certs/sub/deep.crt''])"
  by (simp add: certs_world_def Walk_def walkFn_def Ext_def check_def)

text \<open>
  C9. The chain \<open>writeFile\<close> hands to an encoder is \<open>cacerts\<close> followed by
  \<open>intermediatecerts\<close>, each in the order it has in the struct: this is the chain of
  the first call in trust-store mode, of the first call in keystore mode, and of every
  encoder call \<open>writeFile\<close> makes.
\<close>

theorem writeFile_chain:
  "(privkey p12 = None \<longrightarrow>
      take 1 (snd (writeFile ext p12 path storepass perm)) =
        [CallEncodeTrustStore (cacerts p12 @ intermediatecerts p12) storepass]) \<and>
   (\<forall>k ec. privkey p12 = Some k \<and> entitycert p12 = Some ec \<longrightarrow>
      take 1 (snd (writeFile ext p12 path storepass perm)) =
        [CallEncode k ec (cacerts p12 @ intermediatecerts p12) storepass]) \<and>
   (\<forall>c \<in> set (snd (writeFile ext p12 path storepass perm)).
      \<forall>chain. chainOf c = Some chain \<longrightarrow> chain = cacerts p12 @ intermediatecerts p12)"
  by (auto simp add: writeFile_def Let_def split: sum.splits option.splits)

theorem writeFile_chain_witness:
  "snd (writeFile echo
     \<lparr>cacerts = [rootA], intermediatecerts = [intermediateB], privkey = None, entitycert = None\<rparr>
     ''out.p12'' ''changeit'' 420) =
     [CallEncodeTrustStore [rootA, intermediateB] ''changeit'',
      CallWriteFile ''out.p12'' [10, 11] 420] \<and>
   snd (writeFile echo
     \<lparr>cacerts = [rootA], intermediatecerts = [intermediateB], privkey = Some key1,
      entitycert = Some leafD\<rparr>
     ''out.p12'' ''changeit'' 420) =
     [CallEncode key1 leafD [rootA, intermediateB] ''changeit'',
      CallWriteFile ''out.p12'' [12, 10, 11] 420]"
  using writeFile_chain
    [of "\<lparr>cacerts = [rootA], intermediatecerts = [intermediateB], privkey = None, entitycert = None\<rparr>"
        echo "''out.p12''" "''changeit''" 420]
    writeFile_chain
    [of "\<lparr>cacerts = [rootA], intermediatecerts = [intermediateB], privkey = Some key1,
          entitycert = Some leafD\<rparr>"
        echo "''out.p12''" "''changeit''" 420]
  by (simp add: writeFile_def echo_def rootA_def intermediateB_def leafD_def)

text \<open>
  C10. On a struct with \<open>privkey\<close> nil and \<open>entitycert\<close> occupied, \<open>writeFile\<close>
  does what it does on the same struct without the end-entity certificate; its one
  encoder call is \<open>EncodeTrustStore\<close> on the chain of \<open>cacerts\<close> and
  \<open>intermediatecerts\<close>; and when the struct was built from zero by method calls, the
  end-entity certificate is not a member of that chain.
\<close>

theorem trust_store_omits_entitycert:
  "privkey p12 = None \<Longrightarrow> entitycert p12 = Some ec \<Longrightarrow>
     writeFile ext p12 path storepass perm =
       writeFile ext (p12\<lparr>entitycert := None\<rparr>) path storepass perm \<and>
     filter (\<lambda>c. chainOf c \<noteq> None) (snd (writeFile ext p12 path storepass perm)) =
       [CallEncodeTrustStore (cacerts p12 @ intermediatecerts p12) storepass] \<and>
     (p12 = apply_calls pkcs12File_zero cs \<longrightarrow>
        ec \<notin> set (cacerts p12 @ intermediatecerts p12))"
proof (intro conjI impI)
  assume nokey: "privkey p12 = None" and ent: "entitycert p12 = Some ec"
  show "writeFile ext p12 path storepass perm =
       writeFile ext (p12\<lparr>entitycert := None\<rparr>) path storepass perm"
    using nokey by (simp add: writeFile_def)
  show "filter (\<lambda>c. chainOf c \<noteq> None) (snd (writeFile ext p12 path storepass perm)) =
       [CallEncodeTrustStore (cacerts p12 @ intermediatecerts p12) storepass]"
    using nokey by (simp add: writeFile_def Let_def split: sum.splits)
  assume "p12 = apply_calls pkcs12File_zero cs"
  then have "chain_inv p12" by (simp add: apply_calls_inv zero_inv)
  then show "ec \<notin> set (cacerts p12 @ intermediatecerts p12)"
    using ent by (rule inv_entity_not_in_chain)
qed

theorem trust_store_omits_entitycert_witness:
  "entitycert (apply_calls pkcs12File_zero [AddCertificate (Some rootA), AddCertificate (Some leafD)])
     = Some leafD \<and>
   writeFile echo
     (apply_calls pkcs12File_zero [AddCertificate (Some rootA), AddCertificate (Some leafD)])
     ''out.p12'' ''changeit'' 420 =
   (None, [CallEncodeTrustStore [rootA] ''changeit'', CallWriteFile ''out.p12'' [10] 420]) \<and>
   leafD \<notin> set [rootA]"
  using trust_store_omits_entitycert
    [of "apply_calls pkcs12File_zero [AddCertificate (Some rootA), AddCertificate (Some leafD)]"
        leafD echo "''out.p12''" "''changeit''" 420
        "[AddCertificate (Some rootA), AddCertificate (Some leafD)]"]
  by (simp add: writeFile_def echo_def addCertificate_def pkcs12File_zero_def rootA_def leafD_def)

end
